theory Spec2Isabelle
  imports Main "HOL-Library.Sublist"
begin

section \<open>The voice client of client/src/app.ts\<close>

text \<open>
  The class \<open>WebsocketClientApp\<close> keeps one transport client (\<open>rtviClient\<close>), one audio
  context and a handful of page elements. Each method is embedded as a function from the
  state of the class and the page to the state after the call. Strings are sequences of
  UTF-8 bytes. The transport library and the browser are outside the repository: what their
  asynchronous operations do is a parameter of the model (they resolve or reject, and the
  transport may fire its callbacks while the caller is suspended in an \<open>await\<close>);
  their constructors are taken to return normally. \<open>connect\<close> is suspended twice, at
  \<open>initDevices\<close> and at the opening of the session; the pieces of it before, between
  and after the two are definitions of their own. \<open>connect\<close> puts them together for
  an attempt that nothing interrupts, \<open>connect_interrupted\<close> for an attempt during whose
  first suspension \<open>disconnect\<close> is called and settles, as a click on the connect
  button does, which the page never disables.
\<close>

subsection \<open>Values of the browser and of the transport library\<close>

datatype LogLevel = Info | Warning | Error

datatype conn_status = Connected | Connecting | Disconnected

text \<open>A \<open>MediaStreamTrack\<close>: its kind, its identifier and its \<open>enabled\<close> flag.\<close>

record media_track =
  kind :: string
  track_id :: string
  enabled :: bool

text \<open>The participant descriptor of a track event; the event may carry none.\<close>

record participant =
  is_local :: bool

text \<open>A thrown \<open>Error\<close> object, with \<open>Error.prototype.toString\<close>.\<close>

record js_error =
  err_name :: string
  err_message :: string

definition error_toString :: "js_error \<Rightarrow> string" where
  "error_toString e =
     (if err_name e = [] then err_message e
      else if err_message e = [] then err_name e
      else err_name e @ '': '' @ err_message e)"

record generic_message =
  msg_type :: string
  msg_participant :: string
  msg_text :: string

text \<open>
  What the transport client can report: the callbacks of the options object and the two
  track events of \<open>RTVIEvent\<close>. \<open>BotReady\<close> carries the serialised data and the bot
  audio track that \<open>tracks()\<close> returns at that moment.
\<close>

datatype rtvi_event =
    EvConnected
  | EvDisconnected
  | EvBotReady string "media_track option"
  | EvGenericMessage generic_message
  | EvMessageError string
  | EvError string
  | EvTrackStarted media_track "participant option"
  | EvTrackStopped media_track "participant option"

datatype listener = TrackStarted | TrackStopped

datatype client_call = OnCall listener | InitDevicesCall | ConnectCall | DisconnectCall

text \<open>
  An \<open>RTVIClient\<close> object: the options it was built with, the listeners registered with
  \<open>on\<close>, the local audio track of \<open>tracks()\<close>, and the methods called on it so far,
  oldest first.
\<close>

record rtvi_client =
  baseUrl :: string
  endpoint_connect :: string
  enableMic :: bool
  enableCam :: bool
  listeners :: "listener list"
  local_audio :: "media_track option"
  calls :: "client_call list"

record audio_context =
  resumed :: bool
  closed :: bool

text \<open>An awaited operation: the events fired while suspended, then the result or the thrown error.\<close>

datatype 'a outcome = Resolves 'a | Rejects js_error

type_synonym 'a awaited = "rtvi_event list \<times> 'a outcome"

subsection \<open>The page\<close>

record html_element =
  classList :: "string list"
  textContent :: string

record html_button =
  btn_classList :: "string list"
  btn_disabled :: bool
  innerHTML :: string

record audio_element =
  srcObject :: "media_track list option"
  play_calls :: nat

definition classList_add :: "string \<Rightarrow> string list \<Rightarrow> string list" where
  "classList_add c cs = (if c \<in> set cs then cs else cs @ [c])"

definition classList_remove :: "string \<Rightarrow> string list \<Rightarrow> string list" where
  "classList_remove c cs = filter (\<lambda>x. x \<noteq> c) cs"

record location =
  protocol :: string
  hostname :: string
  port :: string

definition getApiBaseUrl :: "location \<Rightarrow> string" where
  "getApiBaseUrl l =
     protocol l @ ''//'' @ hostname l @ (if port l \<noteq> [] then '':'' @ port l else [])"

subsection \<open>The state of the application\<close>

text \<open>
  The fields of the class, the page elements it looks up (\<open>None\<close> where the page has no
  such element), the globals it reads, and the console. Three components are not fields of
  the class but record what the class did to the outside: \<open>statusHistory\<close> is the list of
  arguments that \<open>updateConnectionStatus\<close> was called with, oldest first;
  \<open>clientsCreated\<close> and \<open>contextsCreated\<close> count the \<open>RTVIClient\<close> and
  \<open>AudioContext\<close> objects constructed.
\<close>

record app =
  rtviClient :: "rtvi_client option"
  audioContext :: "audio_context option"
  activeTab :: string
  connectBtnChat :: "html_button option"
  micButton :: "html_button option"
  statusDot :: "html_element option"
  connectionStatus :: "html_element option"
  statusText :: "html_element option"
  apiKeyInput :: "string option"
  botAudio :: "audio_element option"
  systemPrompt :: "string option"
  window_location :: location
  VITE_WSS_URL :: "string option"
  console :: "string list"
  statusHistory :: "conn_status list"
  clientsCreated :: nat
  contextsCreated :: nat

text \<open>The Connection Status is the last status written; before any write it is Disconnected.\<close>

definition connection_status :: "app \<Rightarrow> conn_status" where
  "connection_status s = (if statusHistory s = [] then Disconnected else last (statusHistory s))"

subsection \<open>Logging and the status indicators\<close>

definition toUpperCase :: "LogLevel \<Rightarrow> string" where
  "toUpperCase l = (case l of Info \<Rightarrow> ''INFO'' | Warning \<Rightarrow> ''WARNING'' | Error \<Rightarrow> ''ERROR'')"

definition log :: "string \<Rightarrow> LogLevel \<Rightarrow> app \<Rightarrow> app" where
  "log message level s = s\<lparr>console := console s @ [''['' @ toUpperCase level @ ''] '' @ message]\<rparr>"

definition updateConnectionStatus :: "conn_status \<Rightarrow> app \<Rightarrow> app" where
  "updateConnectionStatus status s =
     (let s1 = s\<lparr>statusHistory := statusHistory s @ [status]\<rparr> in
      case statusDot s1 of
        None \<Rightarrow> s1
      | Some dot \<Rightarrow>
          if status = Connected then
            s1\<lparr>statusDot := Some (dot\<lparr>classList := classList_add ''connected'' (classList dot)\<rparr>),
               connectionStatus := map_option (\<lambda>e. e\<lparr>textContent := ''Connected''\<rparr>) (connectionStatus s1)\<rparr>
          else
            s1\<lparr>statusDot := Some (dot\<lparr>classList := classList_remove ''connected'' (classList dot)\<rparr>),
               connectionStatus :=
                 map_option (\<lambda>e. e\<lparr>textContent :=
                     (if status = Connecting then ''Connecting...'' else ''Not Connected'')\<rparr>)
                   (connectionStatus s1)\<rparr>)"

definition updateStatusText :: "string \<Rightarrow> app \<Rightarrow> app" where
  "updateStatusText t s = s\<lparr>statusText := map_option (\<lambda>e. e\<lparr>textContent := t\<rparr>) (statusText s)\<rparr>"

subsection \<open>The connection URL\<close>

text \<open>
  \<open>encodeURIComponent\<close> of ECMAScript on a well-formed string: the unreserved characters
  stay, every other byte of the UTF-8 encoding becomes \<open>%\<close> and two upper-case hexadecimal
  digits. A string with an unpaired surrogate, on which ECMAScript throws \<open>URIError\<close>,
  has no UTF-8 encoding and is not a value of the string type used here.
\<close>

definition uriUnreserved :: "char \<Rightarrow> bool" where
  "uriUnreserved c =
     (c \<in> set ''ABCDEFGHIJKLMNOPQRSTUVWXYZabcdefghijklmnopqrstuvwxyz0123456789-_.!~*()''
      \<or> c = CHR 0x27)"

definition hexDigit :: "nat \<Rightarrow> char" where
  "hexDigit n = ''0123456789ABCDEF'' ! (n mod 16)"

definition percentEncode :: "char \<Rightarrow> string" where
  "percentEncode c =
     (if uriUnreserved c then [c]
      else [CHR ''%'', hexDigit (of_char c div 16), hexDigit (of_char c mod 16)])"

definition encodeURIComponent :: "string \<Rightarrow> string" where
  "encodeURIComponent t = concat (map percentEncode t)"

text \<open>
  Lines 213 to 233 of \<open>connect\<close>: the URL from the selected tab, the key and
  \<open>window.systemPrompt\<close> (\<open>None\<close> when nothing was loaded).
\<close>

definition buildConnectUrl :: "string \<Rightarrow> string \<Rightarrow> string option \<Rightarrow> string" where
  "buildConnectUrl tab apiKey prompt =
     (let connectUrl = ''/connect?bot_type='' @ tab @ ''&api_key='' @ apiKey;
          systemInstructions = (case prompt of None \<Rightarrow> [] | Some p \<Rightarrow> p);
          connectUrl =
            (if tab = ''tts-llm-stt'' then
               connectUrl @ ''&tts_voice=en-US-Chirp3-HD-Aoede'' @ ''&tts_pace=1.0''
                 @ ''&llm_model=gemini-2.5-flash-lite-preview-06-17'' @ ''&stt_model=chirp_3''
                 @ ''&stt_language=en-IN''
             else
               connectUrl @ ''&model=gemini-live-2.5-flash-preview'' @ ''&voice=Custom-Female''
                 @ ''&language=hi-IN'' @ ''&tts=true'' @ ''&tts_pace=1.0'')
      in if systemInstructions \<noteq> [] then
           connectUrl @ ''&system_instruction='' @ encodeURIComponent systemInstructions
         else connectUrl)"

text \<open>Reading a URL back: the text after the first \<open>?\<close>, cut at every \<open>&\<close>, and the names before \<open>=\<close>.\<close>

fun split_on :: "char \<Rightarrow> string \<Rightarrow> string list" where
  "split_on d [] = [[]]"
| "split_on d (c # cs) =
     (if c = d then [] # split_on d cs
      else (case split_on d cs of [] \<Rightarrow> [[c]] | w # ws \<Rightarrow> (c # w) # ws))"

definition query_of :: "string \<Rightarrow> string" where
  "query_of url = drop 1 (dropWhile (\<lambda>c. c \<noteq> CHR ''?'') url)"

definition param_names :: "string \<Rightarrow> string list" where
  "param_names url = map (takeWhile (\<lambda>c. c \<noteq> CHR ''='')) (split_on CHR ''&'' (query_of url))"

subsection \<open>Playback of the remote audio\<close>

text \<open>
  \<open>setupAudioTrack\<close> looks up the element \<open>bot-audio\<close>, gives it a new stream holding
  the one track and starts playback. A rejected \<open>play()\<close> is reported later and only
  logged; it is not part of the model.
\<close>

definition setupAudioTrack :: "media_track \<Rightarrow> app \<Rightarrow> app" where
  "setupAudioTrack track s =
     (let s1 = log ''Setting up audio track'' Info s in
      case botAudio s1 of
        None \<Rightarrow> s1
      | Some audioEl \<Rightarrow>
          s1\<lparr>botAudio := Some (audioEl\<lparr>srcObject := Some [track], play_calls := play_calls audioEl + 1\<rparr>)\<rparr>)"

text \<open>\<open>botTrack\<close> is the bot audio track of \<open>tracks()\<close> at the time of the call.\<close>

definition setupMediaTracks :: "media_track option \<Rightarrow> app \<Rightarrow> app" where
  "setupMediaTracks botTrack s =
     (case rtviClient s of
        None \<Rightarrow> s
      | Some c \<Rightarrow> (case botTrack of None \<Rightarrow> s | Some t \<Rightarrow> setupAudioTrack t s))"

text \<open>\<open>!participant?.local\<close>\<close>

definition not_local :: "participant option \<Rightarrow> bool" where
  "not_local p = (case p of None \<Rightarrow> True | Some q \<Rightarrow> \<not> is_local q)"

text \<open>The two listeners that \<open>setupTrackListeners\<close> registers.\<close>

definition onTrackStarted :: "media_track \<Rightarrow> participant option \<Rightarrow> app \<Rightarrow> app" where
  "onTrackStarted track p s =
     (if not_local p \<and> kind track = ''audio''
      then updateStatusText ''Bot is speaking...'' (setupAudioTrack track s)
      else s)"

definition onTrackStopped :: "media_track \<Rightarrow> participant option \<Rightarrow> app \<Rightarrow> app" where
  "onTrackStopped track p s =
     (if not_local p \<and> kind track = ''audio'' then updateStatusText ''Ready'' s else s)"

definition client_called :: "client_call \<Rightarrow> app \<Rightarrow> app" where
  "client_called c s = s\<lparr>rtviClient := map_option (\<lambda>cl. cl\<lparr>calls := calls cl @ [c]\<rparr>) (rtviClient s)\<rparr>"

definition setupTrackListeners :: "app \<Rightarrow> app" where
  "setupTrackListeners s =
     (case rtviClient s of
        None \<Rightarrow> s
      | Some c \<Rightarrow>
          s\<lparr>rtviClient := Some (c\<lparr>listeners := listeners c @ [TrackStarted, TrackStopped],
                                   calls := calls c @ [OnCall TrackStarted, OnCall TrackStopped]\<rparr>)\<rparr>)"

subsection \<open>The callbacks given to the transport client\<close>

definition onConnected :: "app \<Rightarrow> app" where
  \<open>onConnected s =
     (let s1 = updateConnectionStatus Connected s;
          s2 = updateStatusText ''Connected! Click microphone to start'' s1;
          s3 = s2\<lparr>connectBtnChat :=
                 map_option (\<lambda>b. b\<lparr>innerHTML := ''<i class="fas fa-plug"></i> Disconnect''\<rparr>)
                   (connectBtnChat s2)\<rparr>
      in s3\<lparr>micButton := map_option (\<lambda>b. b\<lparr>btn_disabled := False\<rparr>) (micButton s3)\<rparr>)\<close>

definition onDisconnected :: "app \<Rightarrow> app" where
  \<open>onDisconnected s =
     (let s1 = updateConnectionStatus Disconnected s;
          s2 = updateStatusText ''Disconnected'' s1;
          s3 = s2\<lparr>connectBtnChat :=
                 map_option (\<lambda>b. b\<lparr>innerHTML := ''<i class="fas fa-plug"></i> Connect''\<rparr>)
                   (connectBtnChat s2)\<rparr>;
          s4 = s3\<lparr>micButton :=
                 map_option (\<lambda>b. b\<lparr>btn_disabled := True,
                                      btn_classList := classList_remove ''active'' (btn_classList b)\<rparr>)
                   (micButton s3)\<rparr>
      in log ''Client disconnected'' Info s4)\<close>

definition onBotReady :: "string \<Rightarrow> media_track option \<Rightarrow> app \<Rightarrow> app" where
  "onBotReady json botTrack s = setupMediaTracks botTrack (log (''Bot ready: '' @ json) Info s)"

definition onGenericMessage :: "generic_message \<Rightarrow> app \<Rightarrow> app" where
  "onGenericMessage m s =
     (if msg_type m = ''transcription''
      then log (''['' @ msg_participant m @ ''] '' @ msg_text m) Info s
      else s)"

text \<open>
  Delivery of one event of the transport client held in \<open>rtviClient\<close>. The callbacks were
  given to the constructor; a track event reaches the application only when a listener
  for it has been registered on the client. Events that a client fires after it has left
  the session handle are not followed.
\<close>

fun emit :: "rtvi_event \<Rightarrow> app \<Rightarrow> app" where
  "emit EvConnected s = onConnected s"
| "emit EvDisconnected s = onDisconnected s"
| "emit (EvBotReady json botTrack) s = onBotReady json botTrack s"
| "emit (EvGenericMessage m) s = onGenericMessage m s"
| "emit (EvMessageError e) s = log (''Message error: '' @ e) Error s"
| "emit (EvError e) s = log (''Error: '' @ e) Error s"
| "emit (EvTrackStarted t p) s =
     (case rtviClient s of
        None \<Rightarrow> s
      | Some c \<Rightarrow> if TrackStarted \<in> set (listeners c) then onTrackStarted t p s else s)"
| "emit (EvTrackStopped t p) s =
     (case rtviClient s of
        None \<Rightarrow> s
      | Some c \<Rightarrow> if TrackStopped \<in> set (listeners c) then onTrackStopped t p s else s)"

fun emit_all :: "rtvi_event list \<Rightarrow> app \<Rightarrow> app" where
  "emit_all [] s = s"
| "emit_all (ev # evs) s = emit_all evs (emit ev s)"

subsection \<open>Connecting and disconnecting\<close>

text \<open>What the three awaited operations of the transport client do during one call.\<close>

record transport_env =
  initDevices_result :: "media_track option awaited"
  connect_result :: "unit awaited"
  disconnect_result :: "unit awaited"

text \<open>The \<open>catch\<close> block of \<open>connect\<close>.\<close>

definition connect_catch :: "unit awaited \<Rightarrow> js_error \<Rightarrow> app \<Rightarrow> app" where
  "connect_catch disc error s =
     (let s1 = log (''Error connecting: '' @ err_message error) Error s;
          s2 = updateConnectionStatus Disconnected s1;
          s3 = updateStatusText ''Connection failed'' s2
      in case rtviClient s3 of
           None \<Rightarrow> s3
         | Some c \<Rightarrow>
             (let s4 = emit_all (fst disc) (client_called DisconnectCall s3) in
              case snd disc of
                Resolves u \<Rightarrow> s4
              | Rejects e \<Rightarrow> log (''Error during disconnect: '' @ error_toString e) Error s4))"

text \<open>The branch of \<open>connect\<close> taken when the key is missing or empty.\<close>

definition connect_noKey :: "app \<Rightarrow> app" where
  "connect_noKey s =
     updateStatusText ''Please enter API key''
       (updateConnectionStatus Disconnected (log ''API key is required'' Error s))"

text \<open>
  Lines 290 to 297 of \<open>connect\<close>, after \<open>initDevices\<close> has resolved: mute the local
  track and open the session. Reading \<open>tracks\<close> of a null client throws a
  \<open>TypeError\<close>, caught like any other error.
\<close>

definition connect_open :: "transport_env \<Rightarrow> app \<Rightarrow> app" where
  "connect_open env s =
     (case rtviClient s of
        None \<Rightarrow>
          connect_catch (disconnect_result env)
            \<lparr>err_name = ''TypeError'',
             err_message = ''Cannot read properties of null (reading '' @ [CHR 0x27] @ ''tracks''
               @ [CHR 0x27] @ '')''\<rparr> s
      | Some c \<Rightarrow>
          (let s1 = (case local_audio c of
                       None \<Rightarrow> s
                     | Some t \<Rightarrow>
                         log ''Microphone muted by default'' Info
                           (s\<lparr>rtviClient := Some (c\<lparr>local_audio := Some (t\<lparr>enabled := False\<rparr>)\<rparr>)\<rparr>));
               s2 = log ''Connecting to bot...'' Info s1;
               s3 = emit_all (fst (connect_result env)) (client_called ConnectCall s2)
           in case snd (connect_result env) of
                Resolves u \<Rightarrow> s3
              | Rejects e \<Rightarrow> connect_catch (disconnect_result env) e s3))"

text \<open>
  Lines 198 to 202: a new audio context, resumed, and the status set to connecting. The
  \<open>WebSocketTransport\<close> object of line 202 does nothing before a client uses it and
  has no component of its own.
\<close>

definition connect_begin :: "app \<Rightarrow> app" where
  "connect_begin s =
     (let s1 = s\<lparr>audioContext := Some \<lparr>resumed = False, closed = False\<rparr>,
                 contextsCreated := contextsCreated s + 1\<rparr>;
          s2 = s1\<lparr>audioContext := map_option (\<lambda>a. a\<lparr>resumed := True\<rparr>) (audioContext s1)\<rparr>
      in updateConnectionStatus Connecting s2)"

text \<open>Lines 213 to 284: the client built from the URL and the options.\<close>

definition new_client :: "string \<Rightarrow> app \<Rightarrow> rtvi_client" where
  "new_client apiKey s =
     (let connectUrl = buildConnectUrl (activeTab s) apiKey (systemPrompt s) in
      \<lparr>baseUrl =
         (case VITE_WSS_URL s of
            None \<Rightarrow> getApiBaseUrl (window_location s)
          | Some u \<Rightarrow> if u = [] then getApiBaseUrl (window_location s) else u),
       endpoint_connect = connectUrl,
       enableMic = True,
       enableCam = False,
       listeners = [],
       local_audio = None,
       calls = []\<rparr>)"

text \<open>
  Lines 284 to 288, up to the call of \<open>initDevices\<close>: the client is stored, the
  listeners are registered and the initialisation of the devices is started.
\<close>

definition connect_start :: "rtvi_client \<Rightarrow> app \<Rightarrow> app" where
  "connect_start client s =
     (let s4 = s\<lparr>rtviClient := Some client, clientsCreated := clientsCreated s + 1\<rparr>;
          s5 = setupTrackListeners s4;
          s6 = log ''Initializing devices...'' Info s5
      in client_called InitDevicesCall s6)"

text \<open>
  What follows when \<open>initDevices\<close> has settled: its error is caught, or \<open>tracks()\<close>
  has the local audio track that it found and lines 290 to 297 run.
\<close>

definition connect_inited :: "transport_env \<Rightarrow> app \<Rightarrow> app" where
  "connect_inited env s =
     (case snd (initDevices_result env) of
        Rejects e \<Rightarrow> connect_catch (disconnect_result env) e s
      | Resolves mic \<Rightarrow>
          connect_open env
            (s\<lparr>rtviClient := map_option (\<lambda>c. c\<lparr>local_audio := mic\<rparr>) (rtviClient s)\<rparr>))"

text \<open>
  From line 284 on, with the client built, when only the transport acts while the
  attempt is suspended.
\<close>

definition connect_uninterrupted :: "transport_env \<Rightarrow> rtvi_client \<Rightarrow> app \<Rightarrow> app" where
  "connect_uninterrupted env client s =
     connect_inited env (emit_all (fst (initDevices_result env)) (connect_start client s))"

definition connect_session :: "transport_env \<Rightarrow> string \<Rightarrow> app \<Rightarrow> app" where
  "connect_session env apiKey s = connect_uninterrupted env (new_client apiKey s) s"

definition connect :: "transport_env \<Rightarrow> app \<Rightarrow> app" where
  "connect env s =
     (let s3 = connect_begin s in
      case apiKeyInput s3 of
        None \<Rightarrow> connect_noKey s3
      | Some apiKey \<Rightarrow>
          if apiKey = [] then connect_noKey s3 else connect_session env apiKey s3)"

definition disconnect :: "unit awaited \<Rightarrow> app \<Rightarrow> app" where
  "disconnect disc s =
     (case rtviClient s of
        None \<Rightarrow> s
      | Some c \<Rightarrow>
          (let s1 = emit_all (fst disc) (client_called DisconnectCall s) in
           case snd disc of
             Rejects e \<Rightarrow> log (''Error disconnecting: '' @ err_message e) Error s1
           | Resolves u \<Rightarrow>
               (let s2 = s1\<lparr>rtviClient := None\<rparr> in
                case audioContext s2 of
                  None \<Rightarrow> s2
                | Some a \<Rightarrow> s2\<lparr>audioContext := None\<rparr>)))"

definition toggleConnection :: "transport_env \<Rightarrow> app \<Rightarrow> app" where
  "toggleConnection env s =
     (if rtviClient s \<noteq> None then disconnect (disconnect_result env) s else connect env s)"

text \<open>
  From line 284 on, when \<open>disconnect\<close> is called and settles while \<open>initDevices\<close>
  is awaited, after the events of the transport.
\<close>

definition connect_interrupted :: "transport_env \<Rightarrow> unit awaited \<Rightarrow> rtvi_client \<Rightarrow> app \<Rightarrow> app" where
  "connect_interrupted env disc client s =
     connect_inited env
       (disconnect disc (emit_all (fst (initDevices_result env)) (connect_start client s)))"

definition toggleMicrophone :: "app \<Rightarrow> app" where
  "toggleMicrophone s =
     (case rtviClient s of
        None \<Rightarrow> log ''Please connect first'' Warning s
      | Some c \<Rightarrow>
          (case local_audio c of
             None \<Rightarrow> s
           | Some t \<Rightarrow>
               (let isEnabled = enabled t;
                    s1 = s\<lparr>rtviClient := Some (c\<lparr>local_audio := Some (t\<lparr>enabled := \<not> isEnabled\<rparr>)\<rparr>)\<rparr>;
                    s2 = (case micButton s1 of
                            None \<Rightarrow> s1
                          | Some b \<Rightarrow>
                              if \<not> isEnabled then
                                updateStatusText ''Listening...''
                                  (s1\<lparr>micButton := Some (b\<lparr>btn_classList := classList_add ''active'' (btn_classList b)\<rparr>)\<rparr>)
                              else
                                updateStatusText ''Microphone muted''
                                  (s1\<lparr>micButton := Some (b\<lparr>btn_classList := classList_remove ''active'' (btn_classList b)\<rparr>)\<rparr>))
                in log (if isEnabled then ''Microphone muted'' else ''Microphone unmuted'') Info s2)))"

text \<open>The application when the page has loaded: no session, nothing logged, no status written.\<close>

definition initial_app :: "string \<Rightarrow> app" where
  "initial_app key =
     \<lparr>rtviClient = None, audioContext = None, activeTab = ''tts-llm-stt'',
      connectBtnChat = Some \<lparr>btn_classList = [], btn_disabled = False, innerHTML = ''Connect''\<rparr>,
      micButton = Some \<lparr>btn_classList = [], btn_disabled = True, innerHTML = []\<rparr>,
      statusDot = Some \<lparr>classList = [], textContent = []\<rparr>,
      connectionStatus = Some \<lparr>classList = [], textContent = ''Not Connected''\<rparr>,
      statusText = Some \<lparr>classList = [], textContent = []\<rparr>,
      apiKeyInput = Some key,
      botAudio = Some \<lparr>srcObject = None, play_calls = 0\<rparr>,
      systemPrompt = None,
      window_location = \<lparr>protocol = ''http:'', hostname = ''localhost'', port = ''7860''\<rparr>,
      VITE_WSS_URL = None,
      console = [], statusHistory = [], clientsCreated = 0, contextsCreated = 0\<rparr>"

text \<open>
  A transport that behaves: the microphone is found, the session opens and reports
  \<open>onConnected\<close>, a release reports \<open>onDisconnected\<close>. And an error to throw.
\<close>

definition sample_mic :: media_track where
  "sample_mic = \<lparr>kind = ''audio'', track_id = ''mic'', enabled = True\<rparr>"

definition sample_env :: transport_env where
  "sample_env =
     \<lparr>initDevices_result = ([], Resolves (Some sample_mic)),
      connect_result = ([EvConnected], Resolves ()),
      disconnect_result = ([EvDisconnected], Resolves ())\<rparr>"

definition boom :: js_error where
  "boom = \<lparr>err_name = ''Error'', err_message = ''boom''\<rparr>"

text \<open>The application after one successful \<open>connect\<close> with the key \<open>abc123\<close>.\<close>

definition connected_app :: app where
  "connected_app = connect sample_env (initial_app ''abc123'')"

text \<open>
  The application after an attempt with the key \<open>abc123\<close> during whose
  \<open>initDevices\<close> the connect button was clicked again, the release going well.
\<close>

definition interrupted_app :: app where
  "interrupted_app =
     connect_interrupted sample_env (disconnect_result sample_env)
       (new_client ''abc123'' (connect_begin (initial_app ''abc123'')))
       (connect_begin (initial_app ''abc123''))"

text \<open>Two remote audio tracks.\<close>

definition bot_track :: media_track where
  "bot_track = \<lparr>kind = ''audio'', track_id = ''bot'', enabled = True\<rparr>"

definition other_track :: media_track where
  "other_track = \<lparr>kind = ''audio'', track_id = ''other'', enabled = True\<rparr>"

section \<open>What the callbacks leave alone\<close>

lemmas connect_session_unfold = connect_session_def connect_uninterrupted_def connect_start_def
  connect_inited_def

lemmas handler_defs = log_def updateStatusText_def updateConnectionStatus_def setupAudioTrack_def
  setupMediaTracks_def onTrackStarted_def onTrackStopped_def onConnected_def onDisconnected_def
  onBotReady_def onGenericMessage_def Let_def

lemma emit_rtviClient [simp]: "rtviClient (emit ev s) = rtviClient s"
  by (cases ev) (simp_all add: handler_defs split: option.splits)

lemma emit_clientsCreated [simp]: "clientsCreated (emit ev s) = clientsCreated s"
  by (cases ev) (simp_all add: handler_defs split: option.splits)

lemma emit_audioContext [simp]: "audioContext (emit ev s) = audioContext s"
  by (cases ev) (simp_all add: handler_defs split: option.splits)

lemma emit_contextsCreated [simp]: "contextsCreated (emit ev s) = contextsCreated s"
  by (cases ev) (simp_all add: handler_defs split: option.splits)

lemma emit_botAudio_present [simp]: "(botAudio (emit ev s) = None) = (botAudio s = None)"
  by (cases ev) (auto simp add: handler_defs split: option.splits)

lemma emit_statusHistory: "prefix (statusHistory s) (statusHistory (emit ev s))"
  by (cases ev) (simp_all add: handler_defs split: option.splits)

lemma emit_all_rtviClient [simp]: "rtviClient (emit_all evs s) = rtviClient s"
  by (induction evs arbitrary: s) simp_all

lemma emit_all_clientsCreated [simp]: "clientsCreated (emit_all evs s) = clientsCreated s"
  by (induction evs arbitrary: s) simp_all

lemma emit_all_audioContext [simp]: "audioContext (emit_all evs s) = audioContext s"
  by (induction evs arbitrary: s) simp_all

lemma emit_all_contextsCreated [simp]: "contextsCreated (emit_all evs s) = contextsCreated s"
  by (induction evs arbitrary: s) simp_all

lemma emit_all_botAudio_present [simp]: "(botAudio (emit_all evs s) = None) = (botAudio s = None)"
  by (induction evs arbitrary: s) simp_all

lemma emit_all_statusHistory: "prefix (statusHistory s) (statusHistory (emit_all evs s))"
proof (induction evs arbitrary: s)
  case Nil
  show ?case by simp
next
  case (Cons ev evs)
  have "prefix (statusHistory s) (statusHistory (emit ev s))"
    by (rule emit_statusHistory)
  also have "prefix (statusHistory (emit ev s)) (statusHistory (emit_all evs (emit ev s)))"
    by (rule Cons.IH)
  finally show ?case by simp
qed

lemma emit_all_append: "emit_all (xs @ ys) s = emit_all ys (emit_all xs s)"
  by (induction xs arbitrary: s) simp_all

text \<open>Recording a call on the client and delivering an event do not interfere.\<close>

lemma emit_client_called: "emit ev (client_called c s) = client_called c (emit ev s)"
  by (cases ev) (simp_all add: handler_defs client_called_def split: option.splits)

lemma emit_all_client_called: "emit_all evs (client_called c s) = client_called c (emit_all evs s)"
  by (induction evs arbitrary: s) (simp_all add: emit_client_called)

subsection \<open>What each step writes\<close>

lemma log_fields [simp]:
  "rtviClient (log m l s) = rtviClient s"
  "audioContext (log m l s) = audioContext s"
  "clientsCreated (log m l s) = clientsCreated s"
  "contextsCreated (log m l s) = contextsCreated s"
  "apiKeyInput (log m l s) = apiKeyInput s"
  "botAudio (log m l s) = botAudio s"
  "statusHistory (log m l s) = statusHistory s"
  "statusText (log m l s) = statusText s"
  "statusDot (log m l s) = statusDot s"
  "connectionStatus (log m l s) = connectionStatus s"
  "console (log m l s) = console s @ [''['' @ toUpperCase l @ ''] '' @ m]"
  by (simp_all add: log_def)

lemma updateStatusText_fields [simp]:
  "rtviClient (updateStatusText t s) = rtviClient s"
  "audioContext (updateStatusText t s) = audioContext s"
  "clientsCreated (updateStatusText t s) = clientsCreated s"
  "contextsCreated (updateStatusText t s) = contextsCreated s"
  "apiKeyInput (updateStatusText t s) = apiKeyInput s"
  "botAudio (updateStatusText t s) = botAudio s"
  "statusHistory (updateStatusText t s) = statusHistory s"
  "statusDot (updateStatusText t s) = statusDot s"
  "connectionStatus (updateStatusText t s) = connectionStatus s"
  "console (updateStatusText t s) = console s"
  "statusText (updateStatusText t s) = map_option (\<lambda>e. e\<lparr>textContent := t\<rparr>) (statusText s)"
  by (simp_all add: updateStatusText_def)

lemma updateConnectionStatus_fields [simp]:
  "rtviClient (updateConnectionStatus st s) = rtviClient s"
  "audioContext (updateConnectionStatus st s) = audioContext s"
  "clientsCreated (updateConnectionStatus st s) = clientsCreated s"
  "contextsCreated (updateConnectionStatus st s) = contextsCreated s"
  "apiKeyInput (updateConnectionStatus st s) = apiKeyInput s"
  "botAudio (updateConnectionStatus st s) = botAudio s"
  "statusText (updateConnectionStatus st s) = statusText s"
  "console (updateConnectionStatus st s) = console s"
  "statusHistory (updateConnectionStatus st s) = statusHistory s @ [st]"
  by (simp_all add: updateConnectionStatus_def Let_def split: option.splits)

lemma client_called_fields [simp]:
  "rtviClient (client_called c s) = map_option (\<lambda>cl. cl\<lparr>calls := calls cl @ [c]\<rparr>) (rtviClient s)"
  "audioContext (client_called c s) = audioContext s"
  "clientsCreated (client_called c s) = clientsCreated s"
  "contextsCreated (client_called c s) = contextsCreated s"
  "apiKeyInput (client_called c s) = apiKeyInput s"
  "botAudio (client_called c s) = botAudio s"
  "statusHistory (client_called c s) = statusHistory s"
  "console (client_called c s) = console s"
  by (simp_all add: client_called_def)

lemma setupTrackListeners_fields [simp]:
  "rtviClient (setupTrackListeners s) =
     map_option (\<lambda>c. c\<lparr>listeners := listeners c @ [TrackStarted, TrackStopped],
                        calls := calls c @ [OnCall TrackStarted, OnCall TrackStopped]\<rparr>) (rtviClient s)"
  "audioContext (setupTrackListeners s) = audioContext s"
  "clientsCreated (setupTrackListeners s) = clientsCreated s"
  "contextsCreated (setupTrackListeners s) = contextsCreated s"
  "apiKeyInput (setupTrackListeners s) = apiKeyInput s"
  "botAudio (setupTrackListeners s) = botAudio s"
  "statusHistory (setupTrackListeners s) = statusHistory s"
  "console (setupTrackListeners s) = console s"
  by (simp_all add: setupTrackListeners_def split: option.splits)

lemma connect_begin_fields [simp]:
  "rtviClient (connect_begin s) = rtviClient s"
  "audioContext (connect_begin s) = Some \<lparr>resumed = True, closed = False\<rparr>"
  "clientsCreated (connect_begin s) = clientsCreated s"
  "contextsCreated (connect_begin s) = Suc (contextsCreated s)"
  "apiKeyInput (connect_begin s) = apiKeyInput s"
  "botAudio (connect_begin s) = botAudio s"
  "statusText (connect_begin s) = statusText s"
  "console (connect_begin s) = console s"
  "statusHistory (connect_begin s) = statusHistory s @ [Connecting]"
  by (simp_all add: connect_begin_def)

lemma connect_noKey_fields [simp]:
  "rtviClient (connect_noKey s) = rtviClient s"
  "audioContext (connect_noKey s) = audioContext s"
  "clientsCreated (connect_noKey s) = clientsCreated s"
  "contextsCreated (connect_noKey s) = contextsCreated s"
  "console (connect_noKey s) = console s @ [''[ERROR] API key is required'']"
  "statusHistory (connect_noKey s) = statusHistory s @ [Disconnected]"
  "statusText (connect_noKey s) = map_option (\<lambda>e. e\<lparr>textContent := ''Please enter API key''\<rparr>) (statusText s)"
  by (simp_all add: connect_noKey_def toUpperCase_def)

subsection \<open>The two ways through \<open>connect\<close>\<close>

lemma connect_empty_key:
  assumes "apiKeyInput s = None \<or> apiKeyInput s = Some []"
  shows "connect env s = connect_noKey (connect_begin s)"
  using assms by (auto simp add: connect_def Let_def)

lemma connect_with_key:
  assumes "apiKeyInput s = Some k" and "k \<noteq> []"
  shows "connect env s = connect_session env k (connect_begin s)"
  using assms by (simp add: connect_def Let_def)

lemma connect_catch_fields [simp]:
  "rtviClient (connect_catch d e s) =
     map_option (\<lambda>c. c\<lparr>calls := calls c @ [DisconnectCall]\<rparr>) (rtviClient s)"
  "clientsCreated (connect_catch d e s) = clientsCreated s"
  "audioContext (connect_catch d e s) = audioContext s"
  "contextsCreated (connect_catch d e s) = contextsCreated s"
  by (simp_all add: connect_catch_def Let_def split: option.splits outcome.splits)

lemma connect_catch_statusHistory:
  "prefix (statusHistory s @ [Disconnected]) (statusHistory (connect_catch d e s))"
proof -
  let ?s3 = "updateStatusText ''Connection failed''
      (updateConnectionStatus Disconnected (log (''Error connecting: '' @ err_message e) Error s))"
  have h: "statusHistory ?s3 = statusHistory s @ [Disconnected]"
    by simp
  have "prefix (statusHistory ?s3) (statusHistory (emit_all (fst d) (client_called DisconnectCall ?s3)))"
    using emit_all_statusHistory [of "client_called DisconnectCall ?s3" "fst d"]
    by simp
  then show ?thesis
    unfolding h [symmetric]
    by (simp add: connect_catch_def Let_def split: option.splits outcome.splits)
qed

lemma connect_open_fields [simp]:
  "clientsCreated (connect_open env s) = clientsCreated s"
  "audioContext (connect_open env s) = audioContext s"
  "contextsCreated (connect_open env s) = contextsCreated s"
  by (simp_all add: connect_open_def Let_def split: option.splits outcome.splits)

lemma connect_open_statusHistory:
  "prefix (statusHistory s) (statusHistory (connect_open env s))"
proof (cases "rtviClient s")
  case None
  have "prefix (statusHistory s @ [Disconnected]) (statusHistory (connect_open env s))"
    using None by (simp add: connect_open_def connect_catch_statusHistory)
  then show ?thesis by (rule append_prefixD)
next
  case (Some c)
  define s2 where "s2 = log ''Connecting to bot...'' Info
     (case local_audio c of None \<Rightarrow> s
      | Some t \<Rightarrow> log ''Microphone muted by default'' Info
           (s\<lparr>rtviClient := Some (c\<lparr>local_audio := Some (t\<lparr>enabled := False\<rparr>)\<rparr>)\<rparr>))"
  define s3 where "s3 = emit_all (fst (connect_result env)) (client_called ConnectCall s2)"
  have h2: "statusHistory s2 = statusHistory s"
    by (simp add: s2_def split: option.splits)
  have h3: "prefix (statusHistory s) (statusHistory s3)"
    using emit_all_statusHistory [of "client_called ConnectCall s2" "fst (connect_result env)"]
    by (simp add: s3_def h2)
  have eq: "connect_open env s =
      (case snd (connect_result env) of Resolves u \<Rightarrow> s3
       | Rejects e \<Rightarrow> connect_catch (disconnect_result env) e s3)"
    unfolding s3_def s2_def using Some by (simp add: connect_open_def Let_def)
  show ?thesis
  proof (cases "snd (connect_result env)")
    case (Resolves u)
    then show ?thesis using h3 eq by simp
  next
    case (Rejects e)
    have "prefix (statusHistory s3) (statusHistory (connect_catch (disconnect_result env) e s3))"
      using connect_catch_statusHistory [of s3 "disconnect_result env" e] by (rule append_prefixD)
    with h3 have "prefix (statusHistory s) (statusHistory (connect_catch (disconnect_result env) e s3))"
      by (rule prefix_order.trans)
    then show ?thesis using Rejects eq by simp
  qed
qed

lemma connect_session_fields [simp]:
  "clientsCreated (connect_session env k s) = Suc (clientsCreated s)"
  "audioContext (connect_session env k s) = audioContext s"
  "contextsCreated (connect_session env k s) = contextsCreated s"
  by (simp_all add: connect_session_unfold Let_def split: outcome.splits)

lemma connect_session_statusHistory:
  "prefix (statusHistory s) (statusHistory (connect_session env k s))"
proof -
  define s6 where "s6 = client_called InitDevicesCall (log ''Initializing devices...'' Info
     (setupTrackListeners (s\<lparr>rtviClient := Some (new_client k s), clientsCreated := clientsCreated s + 1\<rparr>)))"
  define s7 where "s7 = emit_all (fst (initDevices_result env)) s6"
  have h6: "statusHistory s6 = statusHistory s" by (simp add: s6_def)
  have h7: "prefix (statusHistory s) (statusHistory s7)"
    using emit_all_statusHistory [of s6 "fst (initDevices_result env)"] by (simp add: s7_def h6)
  show ?thesis
  proof (cases "snd (initDevices_result env)")
    case (Rejects e)
    have eq: "connect_session env k s = connect_catch (disconnect_result env) e s7"
      using Rejects by (simp add: connect_session_unfold Let_def s7_def s6_def)
    have "prefix (statusHistory s7) (statusHistory (connect_catch (disconnect_result env) e s7))"
      using connect_catch_statusHistory [of s7 "disconnect_result env" e] by (rule append_prefixD)
    with h7 have "prefix (statusHistory s) (statusHistory (connect_catch (disconnect_result env) e s7))"
      by (rule prefix_order.trans)
    then show ?thesis using eq by simp
  next
    case (Resolves mic)
    define s8 where "s8 = s7\<lparr>rtviClient := map_option (\<lambda>c. c\<lparr>local_audio := mic\<rparr>) (rtviClient s7)\<rparr>"
    have eq: "connect_session env k s = connect_open env s8"
      using Resolves by (simp add: connect_session_unfold Let_def s8_def s7_def s6_def)
    have "prefix (statusHistory s8) (statusHistory (connect_open env s8))"
      by (rule connect_open_statusHistory)
    then have "prefix (statusHistory s7) (statusHistory (connect_open env s8))"
      by (simp add: s8_def)
    with h7 have "prefix (statusHistory s) (statusHistory (connect_open env s8))"
      by (rule prefix_order.trans)
    then show ?thesis using eq by simp
  qed
qed

lemma connect_session_handle: "rtviClient (connect_session env k s) \<noteq> None"
  by (simp add: connect_session_unfold connect_open_def Let_def split: outcome.splits option.splits)

lemma disconnect_fields [simp]:
  "clientsCreated (disconnect d s) = clientsCreated s"
  "contextsCreated (disconnect d s) = contextsCreated s"
  by (simp_all add: disconnect_def Let_def split: option.splits outcome.splits)

lemma disconnect_statusHistory:
  "statusHistory (disconnect d s) = (if rtviClient s = None then statusHistory s else statusHistory (emit_all (fst d) s))"
  by (simp add: disconnect_def Let_def emit_all_client_called split: option.splits outcome.splits)

lemma connected_app_facts:
  "apiKeyInput connected_app = Some ''abc123''"
  "clientsCreated connected_app = 1"
  "rtviClient connected_app \<noteq> None"
  "statusHistory connected_app = [Connecting, Connected]"
  by (simp_all add: connected_app_def connect_def connect_session_unfold connect_open_def Let_def
      sample_env_def onConnected_def initial_app_def)

subsection \<open>Releasing, and what a new session looks like\<close>

lemma emit_all_console_called:
  "console (emit_all evs (client_called c s)) = console (emit_all evs s)"
  by (simp add: emit_all_client_called)

lemma onDisconnected_statusHistory:
  "statusHistory (onDisconnected s) = statusHistory s @ [Disconnected]"
  by (simp add: onDisconnected_def Let_def)

lemma connect_session_client:
  assumes "snd (initDevices_result env) = Resolves mic"
  shows "\<exists>c. rtviClient (connect_session env k s) = Some c
           \<and> take 4 (calls c) = [OnCall TrackStarted, OnCall TrackStopped, InitDevicesCall, ConnectCall]
           \<and> listeners c = [TrackStarted, TrackStopped]
           \<and> local_audio c = map_option (\<lambda>t. t\<lparr>enabled := False\<rparr>) mic
           \<and> endpoint_connect c = buildConnectUrl (activeTab s) k (systemPrompt s)"
  using assms
  by (cases mic; cases "snd (connect_result env)")
     (simp_all add: connect_session_unfold connect_open_def new_client_def Let_def)

lemma emit_track_started_bound:
  assumes "\<exists>c. rtviClient s = Some c \<and> TrackStarted \<in> set (listeners c)"
    and "not_local p" and "kind tr = ''audio''" and "botAudio s \<noteq> None"
  shows "map_option srcObject (botAudio (emit (EvTrackStarted tr p) s)) = Some (Some [tr])"
  using assms by (auto simp add: onTrackStarted_def setupAudioTrack_def Let_def)


lemma connect_session_delivers:
  assumes "connect_result env = (evs @ [EvTrackStarted tr p], Resolves ())"
    and "snd (initDevices_result env) = Resolves mic"
    and "not_local p" and "kind tr = ''audio''" and "botAudio s \<noteq> None"
  shows "map_option srcObject (botAudio (connect_session env k s)) = Some (Some [tr])"
proof -
  define s8 where "s8 = (emit_all (fst (initDevices_result env))
       (client_called InitDevicesCall (log ''Initializing devices...'' Info
         (setupTrackListeners (s\<lparr>rtviClient := Some (new_client k s),
            clientsCreated := clientsCreated s + 1\<rparr>)))))
       \<lparr>rtviClient := Some ((new_client k s)\<lparr>listeners := [TrackStarted, TrackStopped],
           calls := [OnCall TrackStarted, OnCall TrackStopped, InitDevicesCall],
           local_audio := mic\<rparr>)\<rparr>"
  have eq8: "connect_session env k s = connect_open env s8"
    using assms(2) by (simp add: connect_session_unfold Let_def s8_def new_client_def)
  have b8: "botAudio s8 \<noteq> None"
    using assms(5) by (simp add: s8_def)
  define c9 where "c9 = (new_client k s)\<lparr>listeners := [TrackStarted, TrackStopped],
           calls := [OnCall TrackStarted, OnCall TrackStopped, InitDevicesCall, ConnectCall],
           local_audio := map_option (\<lambda>t. t\<lparr>enabled := False\<rparr>) mic\<rparr>"
  define s9 where "s9 = client_called ConnectCall (log ''Connecting to bot...'' Info
     (case mic of None \<Rightarrow> s8
      | Some t \<Rightarrow> log ''Microphone muted by default'' Info
           (s8\<lparr>rtviClient := Some ((new_client k s)\<lparr>listeners := [TrackStarted, TrackStopped],
           calls := [OnCall TrackStarted, OnCall TrackStopped, InitDevicesCall],
           local_audio := Some (t\<lparr>enabled := False\<rparr>)\<rparr>)\<rparr>)))"
  have eq9: "connect_open env s8 = emit (EvTrackStarted tr p) (emit_all evs s9)"
    using assms(1) by (cases mic) (simp_all add: connect_open_def Let_def s8_def s9_def emit_all_append)
  have r9: "rtviClient s9 = Some c9"
    by (cases mic) (simp_all add: s9_def s8_def c9_def new_client_def)
  have b9: "botAudio s9 \<noteq> None"
    using b8 by (cases mic) (simp_all add: s9_def)
  have "map_option srcObject (botAudio (emit (EvTrackStarted tr p) (emit_all evs s9))) = Some (Some [tr])"
  proof (rule emit_track_started_bound)
    show "\<exists>c. rtviClient (emit_all evs s9) = Some c \<and> TrackStarted \<in> set (listeners c)"
      by (simp add: r9 c9_def)
    show "not_local p" by (rule assms(3))
    show "kind tr = ''audio''" by (rule assms(4))
    show "botAudio (emit_all evs s9) \<noteq> None" using b9 by simp
  qed
  then show ?thesis by (simp add: eq8 eq9)
qed

subsection \<open>The pieces of an attempt\<close>

lemma connect_start_fields [simp]:
  "rtviClient (connect_start client s) =
     Some (client\<lparr>listeners := listeners client @ [TrackStarted, TrackStopped],
                   calls := calls client @ [OnCall TrackStarted, OnCall TrackStopped, InitDevicesCall]\<rparr>)"
  "audioContext (connect_start client s) = audioContext s"
  "clientsCreated (connect_start client s) = Suc (clientsCreated s)"
  "contextsCreated (connect_start client s) = contextsCreated s"
  by (simp_all add: connect_start_def Let_def)

lemma connect_inited_fields [simp]:
  "clientsCreated (connect_inited env s) = clientsCreated s"
  "audioContext (connect_inited env s) = audioContext s"
  "contextsCreated (connect_inited env s) = contextsCreated s"
  by (simp_all add: connect_inited_def split: outcome.splits)

text \<open>No piece after the construction assigns the session handle.\<close>

lemma connect_open_handle: "(rtviClient (connect_open env s) = None) = (rtviClient s = None)"
  by (simp add: connect_open_def Let_def split: option.splits outcome.splits)

lemma connect_inited_handle: "(rtviClient (connect_inited env s) = None) = (rtviClient s = None)"
  by (simp add: connect_inited_def connect_open_handle split: outcome.splits)

lemma connect_uninterrupted_handle: "rtviClient (connect_uninterrupted env client s) \<noteq> None"
  by (simp add: connect_uninterrupted_def connect_inited_handle)

lemma connect_uninterrupted_failed:
  assumes "snd (initDevices_result env) = Rejects e
         \<or> (snd (initDevices_result env) = Resolves mic \<and> snd (connect_result env) = Rejects e)"
  shows "\<exists>c. rtviClient (connect_uninterrupted env client s) = Some c
           \<and> last (calls c) = DisconnectCall"
  using assms
  by (auto simp add: connect_uninterrupted_def connect_inited_def connect_open_def Let_def
      split: option.splits)

lemma interrupted_app_facts:
  "rtviClient interrupted_app = None"
  "audioContext interrupted_app = None"
  "clientsCreated interrupted_app = 1"
  "apiKeyInput interrupted_app = Some ''abc123''"
  "last (console interrupted_app) =
     ''[ERROR] Error connecting: Cannot read properties of null (reading '' @ [CHR 0x27]
       @ ''tracks'' @ [CHR 0x27] @ '')''"
  by (simp_all add: interrupted_app_def connect_interrupted_def connect_inited_def
      connect_open_def connect_catch_def connect_start_def connect_begin_def disconnect_def
      setupTrackListeners_def client_called_def new_client_def sample_env_def initial_app_def
      handler_defs toUpperCase_def)

section \<open>The connection descriptor\<close>

text \<open>
  C5. For the composite pipeline (\<open>tts-llm-stt\<close>), the key \<open>abc123\<close> and an empty
  instruction text, the URL carries exactly the parameters \<open>bot_type\<close>, \<open>api_key\<close>,
  \<open>tts_voice\<close>, \<open>tts_pace\<close>, \<open>llm_model\<close>, \<open>stt_model\<close> and
  \<open>stt_language\<close>, in this order and with the fixed values, and no
  \<open>system_instruction\<close>; an instruction text that was never loaded gives the same URL;
  and this URL is the endpoint of the client that \<open>connect\<close> builds.
\<close>

theorem C5_composite_descriptor:
  "buildConnectUrl ''tts-llm-stt'' ''abc123'' (Some []) =
     ''/connect?bot_type=tts-llm-stt&api_key=abc123&tts_voice=en-US-Chirp3-HD-Aoede&tts_pace=1.0&llm_model=gemini-2.5-flash-lite-preview-06-17&stt_model=chirp_3&stt_language=en-IN''
   \<and> buildConnectUrl ''tts-llm-stt'' ''abc123'' None =
       buildConnectUrl ''tts-llm-stt'' ''abc123'' (Some [])
   \<and> param_names (buildConnectUrl ''tts-llm-stt'' ''abc123'' (Some [])) =
       [''bot_type'', ''api_key'', ''tts_voice'', ''tts_pace'', ''llm_model'', ''stt_model'',
        ''stt_language'']
   \<and> ''system_instruction'' \<notin> set (param_names (buildConnectUrl ''tts-llm-stt'' ''abc123'' (Some [])))
   \<and> map_option endpoint_connect (rtviClient (connect sample_env (initial_app ''abc123''))) =
       Some (buildConnectUrl ''tts-llm-stt'' ''abc123'' (Some []))"
proof -
  have url: "buildConnectUrl ''tts-llm-stt'' ''abc123'' (Some []) =
     ''/connect?bot_type=tts-llm-stt&api_key=abc123&tts_voice=en-US-Chirp3-HD-Aoede&tts_pace=1.0&llm_model=gemini-2.5-flash-lite-preview-06-17&stt_model=chirp_3&stt_language=en-IN''"
    by (simp add: buildConnectUrl_def)
  have same: "buildConnectUrl ''tts-llm-stt'' ''abc123'' None =
      buildConnectUrl ''tts-llm-stt'' ''abc123'' (Some [])"
    by (simp add: buildConnectUrl_def)
  have names: "param_names (buildConnectUrl ''tts-llm-stt'' ''abc123'' (Some [])) =
       [''bot_type'', ''api_key'', ''tts_voice'', ''tts_pace'', ''llm_model'', ''stt_model'',
        ''stt_language'']"
    unfolding url by (simp add: param_names_def query_of_def)
  have absent: "''system_instruction'' \<notin> set (param_names (buildConnectUrl ''tts-llm-stt'' ''abc123'' (Some [])))"
    unfolding names by simp
  have used: "map_option endpoint_connect (rtviClient (connect sample_env (initial_app ''abc123''))) =
       Some (buildConnectUrl ''tts-llm-stt'' ''abc123'' (Some []))"
    unfolding same [symmetric]
    by (simp add: connect_def connect_begin_def connect_session_unfold new_client_def
        connect_open_def initial_app_def sample_env_def sample_mic_def
        setupTrackListeners_def client_called_def handler_defs)
  from url same names absent used show ?thesis by blast
qed

text \<open>
  C6. For any other tab than \<open>tts-llm-stt\<close> (the direct live variant), the key
  \<open>abc123\<close> and the instruction text \<open>Be concise\<close>, the URL ends with the parameters
  \<open>model\<close>, \<open>voice\<close>, \<open>language\<close>, \<open>tts\<close>, \<open>tts_pace\<close> with their fixed
  values and with \<open>system_instruction=Be%20concise\<close>, the instruction text
  percent-encoded as \<open>encodeURIComponent\<close> does.
\<close>

theorem C6_direct_live_descriptor:
  assumes "tab \<noteq> ''tts-llm-stt''"
  shows "buildConnectUrl tab ''abc123'' (Some ''Be concise'') =
           ''/connect?bot_type='' @ tab @ ''&api_key=abc123''
             @ ''&model=gemini-live-2.5-flash-preview&voice=Custom-Female&language=hi-IN&tts=true&tts_pace=1.0''
             @ ''&system_instruction='' @ encodeURIComponent ''Be concise''
         \<and> encodeURIComponent ''Be concise'' = ''Be%20concise''"
  using assms
  by (simp add: buildConnectUrl_def encodeURIComponent_def percentEncode_def uriUnreserved_def
      hexDigit_def)

theorem C6_direct_live_descriptor_witness:
  "''gemini-live'' \<noteq> ''tts-llm-stt'' \<and>
   buildConnectUrl ''gemini-live'' ''abc123'' (Some ''Be concise'') =
     ''/connect?bot_type=gemini-live&api_key=abc123&model=gemini-live-2.5-flash-preview&voice=Custom-Female&language=hi-IN&tts=true&tts_pace=1.0&system_instruction=Be%20concise''"
  using C6_direct_live_descriptor [of "''gemini-live''"] by simp

section \<open>The session lifecycle\<close>

text \<open>
  C1. When the key is missing or empty, \<open>connect\<close> builds no client and calls nothing on
  one (the session handle and the number of clients built are what they were), logs the
  error \<open>API key is required\<close>, asks for the key in the status text, and the Connection
  Status at the end of the call is Disconnected.
\<close>

theorem C1_empty_credential:
  assumes "apiKeyInput s = None \<or> apiKeyInput s = Some []"
  shows "rtviClient (connect env s) = rtviClient s
       \<and> clientsCreated (connect env s) = clientsCreated s
       \<and> console (connect env s) = console s @ [''[ERROR] API key is required'']
       \<and> statusText (connect env s) =
           map_option (\<lambda>e. e\<lparr>textContent := ''Please enter API key''\<rparr>) (statusText s)
       \<and> connection_status (connect env s) = Disconnected"
  by (simp add: connect_empty_key [OF assms] connection_status_def)

theorem C1_empty_credential_witness:
  "apiKeyInput (initial_app []) = Some []
   \<and> rtviClient (connect sample_env (initial_app [])) = None
   \<and> clientsCreated (connect sample_env (initial_app [])) = 0
   \<and> console (connect sample_env (initial_app [])) = [''[ERROR] API key is required'']
   \<and> connection_status (connect sample_env (initial_app [])) = Disconnected"
  using C1_empty_credential [of "initial_app []" sample_env]
  by (simp add: initial_app_def)

text \<open>
  C3, as the claim states it, fails: with an empty key the status is Connecting after line
  200, before the key is looked at, so the call writes Connecting and then Disconnected.
\<close>

theorem C3_counterexample:
  "apiKeyInput (initial_app []) = Some []
   \<and> connection_status (initial_app []) = Disconnected
   \<and> connection_status (connect_begin (initial_app [])) = Connecting
   \<and> statusHistory (connect sample_env (initial_app [])) = [Connecting, Disconnected]"
  by (simp add: connect_empty_key connection_status_def initial_app_def)

text \<open>
  C3, amended. When the key is missing or empty, \<open>connect\<close> first sets the status to
  Connecting and only then checks the key; the check fails before any client is built and
  sets the status back to Disconnected. The call writes exactly Connecting, then
  Disconnected.
\<close>

theorem C3_connecting_then_disconnected:
  assumes "apiKeyInput s = None \<or> apiKeyInput s = Some []"
  shows "connect env s = connect_noKey (connect_begin s)
       \<and> connection_status (connect_begin s) = Connecting
       \<and> rtviClient (connect_begin s) = rtviClient s
       \<and> statusHistory (connect env s) = statusHistory s @ [Connecting, Disconnected]"
  by (simp add: connect_empty_key [OF assms] connection_status_def)

theorem C3_connecting_then_disconnected_witness:
  "apiKeyInput (initial_app []) = Some []
   \<and> connection_status (connect_begin (initial_app [])) = Connecting
   \<and> statusHistory (connect sample_env (initial_app [])) = [] @ [Connecting, Disconnected]"
  using C3_connecting_then_disconnected [of "initial_app []" sample_env]
  by (simp add: initial_app_def)




text \<open>
  C4, as the claim states it, fails: when the release throws, \<open>disconnect\<close> keeps the
  session handle, and it writes no status in any case.
\<close>

theorem C4_counterexample:
  "rtviClient connected_app \<noteq> None
   \<and> connection_status connected_app = Connected
   \<and> rtviClient (disconnect ([], Rejects boom) connected_app) \<noteq> None
   \<and> connection_status (disconnect ([], Rejects boom) connected_app) = Connected"
proof -
  obtain c where h: "rtviClient connected_app = Some c"
    using connected_app_facts(3) by auto
  show ?thesis
    by (simp add: h disconnect_def Let_def connection_status_def connected_app_facts)
qed

text \<open>
  C4, amended. For every call of \<open>disconnect\<close> with a session handle: when the release
  succeeds, the handle and the audio context are cleared; \<open>disconnect\<close> writes no
  Connection Status itself, the status is what the callbacks fired during the release
  make it, and is Disconnected once the transport has reported \<open>onDisconnected\<close>,
  whether the release then succeeds or throws; a release failure is only logged.
\<close>

theorem C4_disconnect_release:
  assumes "rtviClient s \<noteq> None"
  shows "rtviClient (disconnect (evs, Resolves ()) s) = None
       \<and> audioContext (disconnect (evs, Resolves ()) s) = None
       \<and> statusHistory (disconnect (evs, r) s) = statusHistory (emit_all evs s)
       \<and> connection_status (disconnect (evs @ [EvDisconnected], r) s) = Disconnected
       \<and> console (disconnect (evs, Rejects e) s) =
           console (emit_all evs s) @ [''[ERROR] Error disconnecting: '' @ err_message e]"
proof -
  from assms obtain c where h: "rtviClient s = Some c" by auto
  have a: "rtviClient (disconnect (evs, Resolves ()) s) = None"
    using h by (simp add: disconnect_def Let_def split: option.splits)
  have b: "audioContext (disconnect (evs, Resolves ()) s) = None"
    using h by (simp add: disconnect_def Let_def split: option.splits)
  have c: "statusHistory (disconnect (evs, r) s) = statusHistory (emit_all evs s)"
    using h by (simp add: disconnect_statusHistory)
  have d: "connection_status (disconnect (evs @ [EvDisconnected], r) s) = Disconnected"
    using h by (simp add: connection_status_def disconnect_statusHistory emit_all_append
        onDisconnected_statusHistory)
  have e: "console (disconnect (evs, Rejects e) s) =
           console (emit_all evs s) @ [''[ERROR] Error disconnecting: '' @ err_message e]"
    using h by (simp add: disconnect_def Let_def emit_all_console_called toUpperCase_def)
  from a b c d e show ?thesis by blast
qed

theorem C4_disconnect_release_witness:
  "rtviClient connected_app \<noteq> None
   \<and> rtviClient (disconnect ([EvDisconnected], Resolves ()) connected_app) = None
   \<and> audioContext (disconnect ([EvDisconnected], Resolves ()) connected_app) = None
   \<and> connection_status (disconnect ([] @ [EvDisconnected], Resolves ()) connected_app) = Disconnected"
  using C4_disconnect_release [of connected_app "[EvDisconnected]" "Resolves ()" boom]
    C4_disconnect_release [of connected_app "[]" "Resolves ()" boom]
  by (simp add: connected_app_facts)

section \<open>Tracks and the microphone\<close>

text \<open>
  C7. In every \<open>connect\<close> with a key in which \<open>initDevices\<close> resolves, so that the
  session is opened, the two track listeners are registered on the client before
  \<open>initDevices\<close> and \<open>connect\<close> are called on it; a track-started event for a remote
  audio track that the transport fires while the session opens is therefore delivered,
  and its track is bound to the audio element of the page.
\<close>

theorem C7_listeners_before_open:
  assumes "apiKeyInput s = Some k" and "k \<noteq> []"
    and "snd (initDevices_result env) = Resolves mic"
  shows "(\<exists>c. rtviClient (connect env s) = Some c
            \<and> take 4 (calls c) =
                [OnCall TrackStarted, OnCall TrackStopped, InitDevicesCall, ConnectCall]
            \<and> set (listeners c) = {TrackStarted, TrackStopped})
       \<and> (connect_result env = (evs @ [EvTrackStarted tr p], Resolves ())
            \<and> not_local p \<and> kind tr = ''audio'' \<and> botAudio s \<noteq> None
          \<longrightarrow> map_option srcObject (botAudio (connect env s)) = Some (Some [tr]))"
proof (intro conjI impI)
  have eq: "connect env s = connect_session env k (connect_begin s)"
    using assms(1,2) by (rule connect_with_key)
  from connect_session_client [OF assms(3), of k "connect_begin s"]
  obtain c where c: "rtviClient (connect_session env k (connect_begin s)) = Some c"
      "take 4 (calls c) = [OnCall TrackStarted, OnCall TrackStopped, InitDevicesCall, ConnectCall]"
      "listeners c = [TrackStarted, TrackStopped]"
    by blast
  show "\<exists>c. rtviClient (connect env s) = Some c
            \<and> take 4 (calls c) =
                [OnCall TrackStarted, OnCall TrackStopped, InitDevicesCall, ConnectCall]
            \<and> set (listeners c) = {TrackStarted, TrackStopped}"
    using c by (simp add: eq)
  assume h: "connect_result env = (evs @ [EvTrackStarted tr p], Resolves ())
            \<and> not_local p \<and> kind tr = ''audio'' \<and> botAudio s \<noteq> None"
  from h have h1: "connect_result env = (evs @ [EvTrackStarted tr p], Resolves ())"
    and h2: "not_local p" and h3: "kind tr = ''audio''"
    and h4: "botAudio (connect_begin s) \<noteq> None"
    by simp_all
  have "map_option srcObject (botAudio (connect_session env k (connect_begin s))) = Some (Some [tr])"
    using h1 assms(3) h2 h3 h4 by (rule connect_session_delivers)
  then show "map_option srcObject (botAudio (connect env s)) = Some (Some [tr])"
    by (simp add: eq)
qed

theorem C7_listeners_before_open_witness:
  "apiKeyInput (initial_app ''abc123'') = Some ''abc123'' \<and> ''abc123'' \<noteq> []
   \<and> snd (initDevices_result (sample_env\<lparr>connect_result := ([EvConnected] @ [EvTrackStarted bot_track None], Resolves ())\<rparr>)) = Resolves (Some sample_mic)
   \<and> not_local None \<and> kind bot_track = ''audio'' \<and> botAudio (initial_app ''abc123'') \<noteq> None
   \<and> map_option srcObject (botAudio (connect (sample_env\<lparr>connect_result := ([EvConnected] @ [EvTrackStarted bot_track None], Resolves ())\<rparr>) (initial_app ''abc123''))) = Some (Some [bot_track])"
  using C7_listeners_before_open [of "initial_app ''abc123''" "''abc123''"
      "sample_env\<lparr>connect_result := ([EvConnected] @ [EvTrackStarted bot_track None], Resolves ())\<rparr>"
      "Some sample_mic" "[EvConnected]" bot_track None]
  by (simp add: initial_app_def sample_env_def not_local_def bot_track_def)

text \<open>
  C8. After every \<open>connect\<close> that got through \<open>initDevices\<close>, and so after every
  successful one, the local audio track, if there is one, is disabled. With a session,
  \<open>toggleMicrophone\<close> negates the \<open>enabled\<close> flag of the local audio track once and
  leaves the Connection Status and its indicators alone. Without a session it logs the
  warning \<open>Please connect first\<close> and changes nothing else.
\<close>

theorem C8_microphone:
  "(apiKeyInput s = Some k \<and> k \<noteq> [] \<and> snd (initDevices_result env) = Resolves mic \<longrightarrow>
      map_option local_audio (rtviClient (connect env s)) =
        Some (map_option (\<lambda>t. t\<lparr>enabled := False\<rparr>) mic))
   \<and> (rtviClient s1 = Some c \<longrightarrow>
      map_option local_audio (rtviClient (toggleMicrophone s1)) =
        Some (map_option (\<lambda>t. t\<lparr>enabled := \<not> enabled t\<rparr>) (local_audio c))
      \<and> statusHistory (toggleMicrophone s1) = statusHistory s1
      \<and> connection_status (toggleMicrophone s1) = connection_status s1
      \<and> statusDot (toggleMicrophone s1) = statusDot s1
      \<and> connectionStatus (toggleMicrophone s1) = connectionStatus s1)
   \<and> (rtviClient s2 = None \<longrightarrow>
      toggleMicrophone s2 = s2\<lparr>console := console s2 @ [''[WARNING] Please connect first'']\<rparr>)"
proof (intro conjI impI)
  assume h: "apiKeyInput s = Some k \<and> k \<noteq> [] \<and> snd (initDevices_result env) = Resolves mic"
  then have eq: "connect env s = connect_session env k (connect_begin s)"
    by (simp add: connect_with_key)
  from h connect_session_client [of env mic k "connect_begin s"]
  show "map_option local_audio (rtviClient (connect env s)) =
        Some (map_option (\<lambda>t. t\<lparr>enabled := False\<rparr>) mic)"
    by (auto simp add: eq)
next
  assume h: "rtviClient s1 = Some c"
  show "map_option local_audio (rtviClient (toggleMicrophone s1)) =
        Some (map_option (\<lambda>t. t\<lparr>enabled := \<not> enabled t\<rparr>) (local_audio c))"
    using h by (simp add: toggleMicrophone_def Let_def split: option.splits)
  show hist: "statusHistory (toggleMicrophone s1) = statusHistory s1"
    using h by (simp add: toggleMicrophone_def Let_def split: option.splits)
  show "connection_status (toggleMicrophone s1) = connection_status s1"
    by (simp add: connection_status_def hist)
  show "statusDot (toggleMicrophone s1) = statusDot s1"
    using h by (simp add: toggleMicrophone_def Let_def split: option.splits)
  show "connectionStatus (toggleMicrophone s1) = connectionStatus s1"
    using h by (simp add: toggleMicrophone_def Let_def split: option.splits)
next
  assume "rtviClient s2 = None"
  then show "toggleMicrophone s2 = s2\<lparr>console := console s2 @ [''[WARNING] Please connect first'']\<rparr>"
    by (simp add: toggleMicrophone_def log_def toUpperCase_def)
qed


theorem C8_microphone_witness:
  "apiKeyInput (initial_app ''abc123'') = Some ''abc123'' \<and> ''abc123'' \<noteq> []
   \<and> snd (initDevices_result sample_env) = Resolves (Some sample_mic)
   \<and> enabled sample_mic
   \<and> map_option local_audio (rtviClient connected_app) = Some (Some (sample_mic\<lparr>enabled := False\<rparr>))
   \<and> map_option local_audio (rtviClient (toggleMicrophone connected_app)) =
        Some (Some (sample_mic\<lparr>enabled := True\<rparr>))
   \<and> connection_status (toggleMicrophone connected_app) = Connected
   \<and> rtviClient (initial_app ''abc123'') = None
   \<and> console (toggleMicrophone (initial_app ''abc123'')) = [''[WARNING] Please connect first'']"
proof -
  have m: "map_option local_audio (rtviClient connected_app) = Some (Some (sample_mic\<lparr>enabled := False\<rparr>))"
    using C8_microphone [of "initial_app ''abc123''" "''abc123''" sample_env "Some sample_mic"]
    by (simp add: connected_app_def initial_app_def sample_env_def)
  then obtain c where c: "rtviClient connected_app = Some c"
    and l: "local_audio c = Some (sample_mic\<lparr>enabled := False\<rparr>)"
    by auto
  have t: "map_option local_audio (rtviClient (toggleMicrophone connected_app)) =
        Some (Some (sample_mic\<lparr>enabled := True\<rparr>))
      \<and> connection_status (toggleMicrophone connected_app) = Connected"
    using C8_microphone [of _ _ _ _ connected_app c] c l
    by (simp add: connection_status_def connected_app_facts)
  have n: "console (toggleMicrophone (initial_app ''abc123'')) = [''[WARNING] Please connect first'']"
    using C8_microphone [of _ _ _ _ _ _ "initial_app ''abc123''"]
    by (simp add: initial_app_def)
  show ?thesis
    using m t n by (simp add: initial_app_def sample_env_def sample_mic_def)
qed

text \<open>
  C9. The listener for track-started, given a track of kind \<open>audio\<close> whose participant
  is absent or not local, makes the stream of that one track the source of the page's
  audio element, whatever was bound before; the listener for track-stopped, given such a
  track, only sets the status text to \<open>Ready\<close>: the Connection Status, its indicators
  and the session handle stay. Both listeners receive the events of a client they are
  registered on.
\<close>

theorem C9_remote_tracks:
  assumes "not_local p" and "kind tr = ''audio''"
  shows "(botAudio s = Some el \<longrightarrow>
            botAudio (onTrackStarted tr p s) =
              Some (el\<lparr>srcObject := Some [tr], play_calls := play_calls el + 1\<rparr>))
       \<and> (rtviClient s = Some c \<and> TrackStarted \<in> set (listeners c) \<longrightarrow>
            emit (EvTrackStarted tr p) s = onTrackStarted tr p s)
       \<and> (rtviClient s = Some c \<and> TrackStopped \<in> set (listeners c) \<longrightarrow>
            emit (EvTrackStopped tr p) s = onTrackStopped tr p s)
       \<and> onTrackStopped tr p s = updateStatusText ''Ready'' s
       \<and> statusHistory (onTrackStopped tr p s) = statusHistory s
       \<and> connection_status (onTrackStopped tr p s) = connection_status s
       \<and> statusDot (onTrackStopped tr p s) = statusDot s
       \<and> connectionStatus (onTrackStopped tr p s) = connectionStatus s
       \<and> rtviClient (onTrackStopped tr p s) = rtviClient s"
  using assms
  by (simp add: onTrackStarted_def onTrackStopped_def setupAudioTrack_def Let_def
      connection_status_def)

theorem C9_remote_tracks_witness:
  "not_local None \<and> kind bot_track = ''audio''
   \<and> botAudio (onTrackStarted other_track None connected_app) =
       Some \<lparr>srcObject = Some [other_track], play_calls = 1\<rparr>
   \<and> botAudio (onTrackStarted bot_track None (onTrackStarted other_track None connected_app)) =
       Some \<lparr>srcObject = Some [bot_track], play_calls = 2\<rparr>
   \<and> connection_status (onTrackStopped bot_track None connected_app) = Connected"
proof -
  have k: "not_local None" "kind bot_track = ''audio''" "kind other_track = ''audio''"
    by (simp_all add: not_local_def bot_track_def other_track_def)
  have b0: "botAudio connected_app = Some \<lparr>srcObject = None, play_calls = 0\<rparr>"
    by (simp add: connected_app_def connect_def connect_session_unfold connect_open_def Let_def
      sample_env_def onConnected_def initial_app_def)
  have b1: "botAudio (onTrackStarted other_track None connected_app) =
       Some \<lparr>srcObject = Some [other_track], play_calls = 1\<rparr>"
    using C9_remote_tracks [OF k(1) k(3), of connected_app] b0 by simp
  have b2: "botAudio (onTrackStarted bot_track None (onTrackStarted other_track None connected_app)) =
       Some \<lparr>srcObject = Some [bot_track], play_calls = 2\<rparr>"
    using C9_remote_tracks [OF k(1) k(2), of "onTrackStarted other_track None connected_app"] b1
    by simp
  have st: "connection_status (onTrackStopped bot_track None connected_app) = Connected"
    using C9_remote_tracks [OF k(1) k(2), of connected_app]
    by (simp add: connection_status_def connected_app_facts)
  from k b1 b2 st show ?thesis by simp
qed

text \<open>
  C10, as the claim states it, fails: when \<open>disconnect\<close> runs while \<open>initDevices\<close> is
  awaited, it clears the session handle and the audio context; line 290 then throws a
  \<open>TypeError\<close>, after the client was built, and the \<open>catch\<close> block leaves the handle
  null, so the next toggle starts a new attempt and builds a second client.
\<close>

theorem C10_counterexample:
  "clientsCreated interrupted_app = 1
   \<and> last (console interrupted_app) =
       ''[ERROR] Error connecting: Cannot read properties of null (reading '' @ [CHR 0x27]
         @ ''tracks'' @ [CHR 0x27] @ '')''
   \<and> rtviClient interrupted_app = None
   \<and> audioContext interrupted_app = None
   \<and> toggleConnection sample_env interrupted_app = connect sample_env interrupted_app
   \<and> clientsCreated (toggleConnection sample_env interrupted_app) = 2"
  by (simp add: interrupted_app_facts toggleConnection_def
      connect_with_key [of _ "''abc123''"])

text \<open>
  C10, amended. When \<open>initDevices\<close> or \<open>connect\<close> of the transport client throws, that
  is after the client was built, in an attempt during whose suspensions no
  \<open>disconnect\<close> ran, the \<open>catch\<close> block calls \<open>disconnect\<close> on the client but leaves it
  in the session handle, and the audio context made at the start of the attempt stays
  open; the next toggle therefore runs \<open>disconnect\<close> and starts no new attempt.
\<close>

theorem C10_failed_connect_keeps_handle:
  assumes "snd (initDevices_result env) = Rejects e
         \<or> (snd (initDevices_result env) = Resolves mic \<and> snd (connect_result env) = Rejects e)"
  shows "rtviClient (connect_uninterrupted env client (connect_begin s)) \<noteq> None
       \<and> (\<exists>c. rtviClient (connect_uninterrupted env client (connect_begin s)) = Some c
              \<and> last (calls c) = DisconnectCall)
       \<and> audioContext (connect_uninterrupted env client (connect_begin s)) =
           Some \<lparr>resumed = True, closed = False\<rparr>
       \<and> contextsCreated (connect_uninterrupted env client (connect_begin s)) =
           Suc (contextsCreated s)
       \<and> toggleConnection env' (connect_uninterrupted env client (connect_begin s)) =
           disconnect (disconnect_result env') (connect_uninterrupted env client (connect_begin s))
       \<and> clientsCreated (toggleConnection env' (connect_uninterrupted env client (connect_begin s))) =
           clientsCreated (connect_uninterrupted env client (connect_begin s))"
proof -
  let ?r = "connect_uninterrupted env client (connect_begin s)"
  have h: "rtviClient ?r \<noteq> None"
    by (rule connect_uninterrupted_handle)
  have c: "\<exists>c. rtviClient ?r = Some c \<and> last (calls c) = DisconnectCall"
    using assms by (rule connect_uninterrupted_failed)
  have a: "audioContext ?r = Some \<lparr>resumed = True, closed = False\<rparr>"
    by (simp add: connect_uninterrupted_def)
  have n: "contextsCreated ?r = Suc (contextsCreated s)"
    by (simp add: connect_uninterrupted_def)
  have t: "toggleConnection env' ?r = disconnect (disconnect_result env') ?r"
    using h by (simp add: toggleConnection_def)
  have m: "clientsCreated (toggleConnection env' ?r) = clientsCreated ?r"
    by (simp add: t)
  from h c a n t m show ?thesis by blast
qed

theorem C10_failed_connect_keeps_handle_witness:
  "snd (initDevices_result (sample_env\<lparr>connect_result := ([], Rejects boom)\<rparr>)) = Resolves (Some sample_mic)
   \<and> snd (connect_result (sample_env\<lparr>connect_result := ([], Rejects boom)\<rparr>)) = Rejects boom
   \<and> connect (sample_env\<lparr>connect_result := ([], Rejects boom)\<rparr>) (initial_app ''abc123'') =
       connect_uninterrupted (sample_env\<lparr>connect_result := ([], Rejects boom)\<rparr>)
         (new_client ''abc123'' (connect_begin (initial_app ''abc123'')))
         (connect_begin (initial_app ''abc123''))
   \<and> rtviClient (connect (sample_env\<lparr>connect_result := ([], Rejects boom)\<rparr>) (initial_app ''abc123'')) \<noteq> None
   \<and> audioContext (connect (sample_env\<lparr>connect_result := ([], Rejects boom)\<rparr>) (initial_app ''abc123''))
       = Some \<lparr>resumed = True, closed = False\<rparr>
   \<and> toggleConnection sample_env (connect (sample_env\<lparr>connect_result := ([], Rejects boom)\<rparr>) (initial_app ''abc123''))
       = disconnect (disconnect_result sample_env) (connect (sample_env\<lparr>connect_result := ([], Rejects boom)\<rparr>) (initial_app ''abc123''))"
proof -
  have eq: "connect (sample_env\<lparr>connect_result := ([], Rejects boom)\<rparr>) (initial_app ''abc123'') =
       connect_uninterrupted (sample_env\<lparr>connect_result := ([], Rejects boom)\<rparr>)
         (new_client ''abc123'' (connect_begin (initial_app ''abc123'')))
         (connect_begin (initial_app ''abc123''))"
    by (simp add: connect_with_key [of _ "''abc123''"] connect_session_def initial_app_def)
  show ?thesis
    unfolding eq
    using C10_failed_connect_keeps_handle [of "sample_env\<lparr>connect_result := ([], Rejects boom)\<rparr>"
        boom "Some sample_mic"
        "new_client ''abc123'' (connect_begin (initial_app ''abc123''))"
        "initial_app ''abc123''" sample_env]
    by (simp add: sample_env_def)
qed

end
